theory Spec2Isabelle
  imports Complex_Main "HOL-Library.Product_Lexorder"
begin

section \<open>need\_to\_shovel: the snow notifier of \<^verbatim>\<open>src/need_to_shovel.js\<close>\<close>

text \<open>
  The script is one callback-style entry point with three steps: the dedup gate
  (\<^verbatim>\<open>module.exports\<close>), the snow aggregator (\<^verbatim>\<open>getPrecipationData\<close>) and the notifier
  (\<^verbatim>\<open>pushNotificationIfNeeded\<close>). Everything it does to the outside (the invocation
  callback, the key-value store, the weather provider, the push provider, the console)
  is modelled as a list of actions in the order the code performs them; everything the
  outside answers (clock readings, provider responses, store contents and errors) is a
  field of a \<open>world\<close> record. The configuration in \<^verbatim>\<open>context.secrets\<close> (keys,
  coordinates, credentials) is passed on to the providers unchanged and is left out.
  Snow depths are JavaScript numbers, that is doubles; each is the \<open>real\<close> it
  stands for. Comparing one with an integer threshold is exact; adding two of them
  rounds, so the addition is a parameter (\<open>number_plus\<close> of the world) and not the
  addition of the reals.
\<close>

subsection \<open>Local time: the part of moment-timezone the script uses\<close>

text \<open>
  A \<open>moment\<close> is the wall-clock reading of an instant in the zone \<^verbatim>\<open>TZ\<close>
  (America/Toronto): calendar date and time of day, to the millisecond. The month is
  kept 1-based, as \<^verbatim>\<open>format("YYYY-MM-DD")\<close> prints it.

  moment.js compares instants (\<^verbatim>\<open>isAfter\<close>, \<^verbatim>\<open>isBefore\<close>, \<^verbatim>\<open>isBetween\<close>) by
  their millisecond timestamps. Here they are compared by wall clock. The two orders
  agree whenever one of the two instants lies outside an hour repeated by a change of
  the UTC offset; in America/Toronto the offset changes at 02:00, and every boundary the
  script compares against is 05:00, 06:00, 06:30, 21:00 or 22:00.
\<close>

record moment =
  year :: int
  month :: nat
  date :: nat
  hour :: nat
  minute :: nat
  second :: nat
  millisecond :: nat

definition wallClock :: "moment \<Rightarrow> int \<times> nat \<times> nat \<times> nat \<times> nat \<times> nat \<times> nat" where
  "wallClock m = (year m, month m, date m, hour m, minute m, second m, millisecond m)"

text \<open>\<^verbatim>\<open>a.isAfter(b)\<close> and \<^verbatim>\<open>a.isBefore(b)\<close>: strict, at millisecond granularity.\<close>

definition isAfter :: "moment \<Rightarrow> moment \<Rightarrow> bool" where
  "isAfter a b = (wallClock b < wallClock a)"

definition isBefore :: "moment \<Rightarrow> moment \<Rightarrow> bool" where
  "isBefore a b = (wallClock a < wallClock b)"

text \<open>
  \<^verbatim>\<open>x.isBetween(from, to)\<close> with no further argument: moment.js takes the
  inclusivity \<^verbatim>\<open>'()'\<close>, so both ends are excluded.
\<close>

definition isBetween :: "moment \<Rightarrow> moment \<Rightarrow> moment \<Rightarrow> bool" where
  "isBetween x from to = (isAfter x from \<and> isBefore x to)"

text \<open>The setters; the script only passes values in range.\<close>

definition hours :: "nat \<Rightarrow> moment \<Rightarrow> moment" where
  "hours h m = m\<lparr>hour := h\<rparr>"

definition minutes :: "nat \<Rightarrow> moment \<Rightarrow> moment" where
  "minutes n m = m\<lparr>minute := n\<rparr>"

definition seconds :: "nat \<Rightarrow> moment \<Rightarrow> moment" where
  "seconds s m = m\<lparr>second := s\<rparr>"

definition milliseconds :: "nat \<Rightarrow> moment \<Rightarrow> moment" where
  "milliseconds s m = m\<lparr>millisecond := s\<rparr>"

text \<open>\<^verbatim>\<open>startOf('day')\<close>: local midnight of the same calendar date.\<close>

definition startOf_day :: "moment \<Rightarrow> moment" where
  "startOf_day m = m\<lparr>hour := 0, minute := 0, second := 0, millisecond := 0\<rparr>"

definition leap_year :: "int \<Rightarrow> bool" where
  "leap_year y = (y mod 4 = 0 \<and> (y mod 100 \<noteq> 0 \<or> y mod 400 = 0))"

definition days_in_month :: "int \<Rightarrow> nat \<Rightarrow> nat" where
  "days_in_month y m =
     (if m = 2 then (if leap_year y then 29 else 28)
      else if m = 4 \<or> m = 6 \<or> m = 9 \<or> m = 11 then 30
      else 31)"

text \<open>
  \<^verbatim>\<open>subtract(1, 'days')\<close>: the previous calendar date at the same time of day. (Both
  uses in the script overwrite the time of day right after.)
\<close>

definition subtract_1_days :: "moment \<Rightarrow> moment" where
  "subtract_1_days m =
     (if 1 < date m then m\<lparr>date := date m - 1\<rparr>
      else if 1 < month m
        then m\<lparr>month := month m - 1, date := days_in_month (year m) (month m - 1)\<rparr>
      else m\<lparr>year := year m - 1, month := 12, date := 31\<rparr>)"

text \<open>
  \<^verbatim>\<open>format("YYYY-MM-DD")\<close>: each field goes through moment's \<^verbatim>\<open>zeroFill\<close>, which
  writes the absolute value in decimal, fills it with zeros up to the target length and
  puts a minus sign in front of a negative number (the tokens \<^verbatim>\<open>YYYY\<close>, \<^verbatim>\<open>MM\<close> and
  \<^verbatim>\<open>DD\<close> never force a plus sign). \<^verbatim>\<open>MM\<close> prints the month from 1.
\<close>

definition digit_char :: "nat \<Rightarrow> char" where
  "digit_char d = ''0123456789'' ! (d mod 10)"

fun decimal :: "nat \<Rightarrow> string" where
  "decimal n = (if n < 10 then [digit_char n] else decimal (n div 10) @ [digit_char n])"

declare decimal.simps [simp del]

definition zeroFill :: "int \<Rightarrow> nat \<Rightarrow> string" where
  "zeroFill number targetLength =
     (if number < 0 then ''-'' else []) @
     replicate (targetLength - length (decimal (nat \<bar>number\<bar>))) CHR ''0'' @
     decimal (nat \<bar>number\<bar>)"

definition format_YYYY_MM_DD :: "moment \<Rightarrow> string" where
  "format_YYYY_MM_DD m =
     zeroFill (year m) 4 @ ''-'' @ zeroFill (int (month m)) 2 @ ''-'' @ zeroFill (int (date m)) 2"

subsection \<open>Constants\<close>

definition DEBUG_LEVEL :: nat where
  "DEBUG_LEVEL = 1"

text \<open>Snow levels (in cm) that are worth waking up early to.\<close>

definition MINIMUM_SNOW_0500 :: real where
  "MINIMUM_SNOW_0500 = 40"

definition MINIMUM_SNOW_0600 :: real where
  "MINIMUM_SNOW_0600 = 20"

definition MINIMUM_SNOW_0630 :: real where
  "MINIMUM_SNOW_0630 = 5"

subsection \<open>Data\<close>

text \<open>An error value handed to a callback or carried by a rejected promise.\<close>

datatype error = Error string

text \<open>
  A text the script builds: a literal, or a literal with a number spliced in
  (\<^verbatim>\<open>"Snow level is " + snowTotal + "cm, ..."\<close>).
\<close>

datatype msg_text = Plain string | WithNumber string real string

text \<open>The persisted record \<^verbatim>\<open>{ lastMessageSent: "YYYY-MM-DD" }\<close>; the field may be absent.\<close>

record stored =
  lastMessageSent :: "string option"

text \<open>
  One element of \<^verbatim>\<open>hourly.data\<close> of a provider response. \<open>time\<close> is
  \<^verbatim>\<open>moment(x.time, "X").tz(TZ)\<close>, the sample's timestamp read in the zone;
  \<^verbatim>\<open>precipAccumulation\<close> may be absent.
\<close>

record data_point =
  time :: moment
  precipAccumulation :: "real option"

text \<open>
  A provider response that carries its \<^verbatim>\<open>hourly.data\<close> array. A response may come
  without one; that is \<open>None\<close> where a response is expected (see \<open>world\<close>).
\<close>

record forecast =
  hourly_data :: "data_point list"

text \<open>An element of \<^verbatim>\<open>snowArray\<close>: \<^verbatim>\<open>{ time: ..., snow: ... }\<close>.\<close>

record sample =
  sample_time :: moment
  snow :: real

text \<open>The message object handed to the push provider.\<close>

record pushover_msg =
  message :: msg_text
  title :: string
  sound :: string
  retry :: nat
  expire :: nat
  priority :: nat

text \<open>What the script does to the outside, in program order.\<close>

datatype action =
    ConsoleLog string
  | Callback "error option" "msg_text option"
  | StorageGet
  | StorageSet stored
  | LoadTime moment
  | PushoverSend pushover_msg

text \<open>
  What the push provider library does after \<^verbatim>\<open>p.send(msg, fn)\<close>: it may call the
  \<^verbatim>\<open>onerror\<close> handler given to the constructor, and it may call \<^verbatim>\<open>fn(err, result)\<close>.
\<close>

datatype pushover_event =
    OnError error
  | SendDone "error option" string

text \<open>Each \<^verbatim>\<open>moment()\<close> in the source reads the clock anew; one site per occurrence.\<close>

datatype clock_site =
    AtGate
  | AtLoadYesterday
  | AtLoadToday
  | AtYesterdayEvening
  | AtTodayMorning
  | AtNotifier
  | AtMarker

text \<open>
  The outside world of one invocation: the clock, the store's content and whether
  reading or writing it fails, the two provider responses (and which rejection
  \<^verbatim>\<open>Promise.all\<close> sees first when both fail), and what the push library reports.
  A provider call is rejected with an error (\<open>Inl\<close>), or resolves with a response that
  has no \<^verbatim>\<open>hourly.data\<close> array (\<open>Inr None\<close>) or has one (\<open>Inr (Some f)\<close>).

  \<open>number_plus\<close> is \<^verbatim>\<open>+\<close> on JavaScript numbers: the addition of IEEE-754 doubles,
  which rounds its result. The reals of this theory do not compute it, so it is taken
  as given with the world, and every statement about a total holds whatever it rounds
  to.
\<close>

record world =
  clock :: "clock_site \<Rightarrow> moment"
  storage_data :: "stored option"
  storage_get_error :: "error option"
  storage_set_error :: "error option"
  yesterday_response :: "error + forecast option"
  today_response :: "error + forecast option"
  today_rejects_first :: bool
  pushover_events :: "pushover_event list"
  number_plus :: "real \<Rightarrow> real \<Rightarrow> real"

subsection \<open>The notifier: \<^verbatim>\<open>pushNotificationIfNeeded\<close>\<close>

definition time0500 :: "moment \<Rightarrow> moment" where
  "time0500 now = hours 5 (startOf_day now)"

definition time0600 :: "moment \<Rightarrow> moment" where
  "time0600 now = hours 6 (time0500 now)"

definition time0630 :: "moment \<Rightarrow> moment" where
  "time0630 now = minutes 30 (time0600 now)"

text \<open>The condition of the \<^verbatim>\<open>if\<close> at lines 27-29.\<close>

definition rule_condition :: "moment \<Rightarrow> real \<Rightarrow> bool" where
  "rule_condition now snowLevel =
     ((isAfter now (time0500 now) \<and> snowLevel > MINIMUM_SNOW_0500) \<or>
      (isAfter now (time0600 now) \<and> snowLevel > MINIMUM_SNOW_0600) \<or>
      (isAfter now (time0630 now) \<and> snowLevel > MINIMUM_SNOW_0630))"

definition msg :: "real \<Rightarrow> pushover_msg" where
  "msg snowLevel =
     \<lparr>message = WithNumber ''Time to wake up, there is over '' snowLevel ''cm of snow outside!'',
      title = ''Time to Shovel!'',
      sound = ''persistent'',
      retry = 60,
      expire = 6 * 60 * 60,
      priority = (if DEBUG_LEVEL > 2 then 0 else 2)\<rparr>"

text \<open>The \<^verbatim>\<open>onerror\<close> handler given to the Pushover constructor (line 34).\<close>

definition onerror :: "error \<Rightarrow> action list" where
  "onerror e = [Callback (Some e) None]"

text \<open>The callback given to \<^verbatim>\<open>context.storage.set\<close> (line 57).\<close>

definition storage_set_callback :: "error option \<Rightarrow> action list" where
  "storage_set_callback err =
     (case err of Some e \<Rightarrow> [Callback (Some e) None] | None \<Rightarrow> [])"

text \<open>
  The callback given to \<^verbatim>\<open>p.send\<close> (lines 49-60), with the store's answer to the
  \<^verbatim>\<open>set\<close> it issues. The branch for \<^verbatim>\<open>err\<close> does not return, so the lines after
  it run on both paths. Its \<^verbatim>\<open>return true\<close> goes to the push library.
\<close>

definition send_callback :: "world \<Rightarrow> error option \<Rightarrow> string \<Rightarrow> bool \<times> action list" where
  "send_callback w err result =
     (True,
      (case err of
         Some e \<Rightarrow> [ConsoleLog ''Cannot send pushover notification: '', Callback (Some e) None]
       | None \<Rightarrow> []) @
      [ConsoleLog ''Sent pushover notification: '',
       StorageSet \<lparr>lastMessageSent = Some (format_YYYY_MM_DD (clock w AtMarker))\<rparr>] @
      storage_set_callback (storage_set_error w))"

text \<open>The handlers run once per report of the push library, in the order of the reports.\<close>

fun pushover_handlers :: "world \<Rightarrow> pushover_event list \<Rightarrow> action list" where
  "pushover_handlers w [] = []"
| "pushover_handlers w (OnError e # evs) = onerror e @ pushover_handlers w evs"
| "pushover_handlers w (SendDone err result # evs) =
     snd (send_callback w err result) @ pushover_handlers w evs"

text \<open>
  A call of \<^verbatim>\<open>pushNotificationIfNeeded\<close>: the value it returns, what it does before
  it returns, and what the callbacks it registered do later, after the caller's turn of
  the event loop has ended (the send is an HTTPS request).
\<close>

record notifier_result =
  returned :: bool
  performed :: "action list"
  deferred :: "action list"

definition pushNotificationIfNeeded :: "world \<Rightarrow> real \<Rightarrow> notifier_result" where
  "pushNotificationIfNeeded w snowLevel =
     (if rule_condition (clock w AtNotifier) snowLevel
      then \<lparr>returned = False,
            performed = [PushoverSend (msg snowLevel)],
            deferred = pushover_handlers w (pushover_events w)\<rparr>
      else \<lparr>returned = False, performed = [], deferred = []\<rparr>)"

subsection \<open>The snow aggregator: \<^verbatim>\<open>getPrecipationData\<close>\<close>

definition yesterdayEvening :: "moment \<Rightarrow> moment" where
  "yesterdayEvening now =
     milliseconds 0 (seconds 0 (minutes 0 (hours 21 (subtract_1_days now))))"

text \<open>
  Line 86 has no \<^verbatim>\<open>.milliseconds(0)\<close>, which line 85 has: the milliseconds of the
  clock reading stay in place.
\<close>

definition todayMorning :: "moment \<Rightarrow> moment" where
  "todayMorning now = seconds 0 (minutes 0 (hours 22 now))"

text \<open>\<^verbatim>\<open>x.precipAccumulation || 0\<close>\<close>

definition or_0 :: "real option \<Rightarrow> real" where
  "or_0 v = (case v of Some a \<Rightarrow> a | None \<Rightarrow> 0)"

definition snowArray :: "moment \<Rightarrow> moment \<Rightarrow> forecast \<Rightarrow> forecast \<Rightarrow> sample list" where
  "snowArray yE tM yesterday today =
     filter (\<lambda>x. isBetween (sample_time x) yE tM)
       (map (\<lambda>x. \<lparr>sample_time = time x, snow = or_0 (precipAccumulation x)\<rparr>)
          (hourly_data yesterday @ hourly_data today))"

text \<open>
  \<^verbatim>\<open>snowArray.reduce(function(sum, val) { return sum + val.snow }, 0)\<close>, with the
  addition of numbers as a parameter.
\<close>

definition snowTotal :: "(real \<Rightarrow> real \<Rightarrow> real) \<Rightarrow> sample list \<Rightarrow> real" where
  "snowTotal add arr = foldl (\<lambda>sum val. add sum (snow val)) 0 arr"

text \<open>The value of \<^verbatim>\<open>snowTotal\<close> in a run (lines 85-98).\<close>

definition run_total :: "world \<Rightarrow> forecast \<Rightarrow> forecast \<Rightarrow> real" where
  "run_total w yesterday today =
     snowTotal (number_plus w)
       (snowArray (yesterdayEvening (clock w AtYesterdayEvening))
          (todayMorning (clock w AtTodayMorning)) yesterday today)"

text \<open>
  The handler of \<^verbatim>\<open>.then\<close> (lines 82-111), for two responses that carry their
  \<^verbatim>\<open>hourly.data\<close>.
\<close>

definition resolved :: "world \<Rightarrow> forecast \<Rightarrow> forecast \<Rightarrow> action list" where
  "resolved w yesterday today =
     (let total = run_total w yesterday today;
          r = pushNotificationIfNeeded w total
      in (if DEBUG_LEVEL > 2 then [ConsoleLog ''Snow levels: ''] else []) @
         (if DEBUG_LEVEL > 1 then [ConsoleLog ''Total snow level: ''] else []) @
         performed r @
         [Callback None (Some
            (if returned r
             then WithNumber ''Snow level is '' total ''cm, message has been sent!''
             else WithNumber ''Snow level is '' total ''cm, no need to shovel!''))] @
         deferred r)"

text \<open>The handler of \<^verbatim>\<open>.catch\<close> (lines 112-115).\<close>

definition rejected :: "error \<Rightarrow> action list" where
  "rejected err = [ConsoleLog ''Error: '', Callback (Some err) None]"

text \<open>
  What line 89 throws when a response has no \<^verbatim>\<open>hourly.data\<close> to read or to map over.
\<close>

definition TypeError :: error where
  "TypeError = Error ''TypeError''"

text \<open>\<^verbatim>\<open>Promise.all\<close> of the two loads: both values, or the first rejection.\<close>

definition Promise_all :: "error + 'a \<Rightarrow> error + 'a \<Rightarrow> bool \<Rightarrow> error + 'a \<times> 'a" where
  "Promise_all y t t_first =
     (case (y, t) of
        (Inr a, Inr b) \<Rightarrow> Inr (a, b)
      | (Inl e, Inr b) \<Rightarrow> Inl e
      | (Inr a, Inl e) \<Rightarrow> Inl e
      | (Inl e1, Inl e2) \<Rightarrow> Inl (if t_first then e2 else e1))"

text \<open>
  The two loads are started at once; the chain \<^verbatim>\<open>.then(...).catch(...)\<close> hands a
  rejection to \<open>rejected\<close>, and also the exception of the \<^verbatim>\<open>.then\<close> handler: with a
  response that lacks \<^verbatim>\<open>hourly.data\<close> line 89 throws before anything is done.
\<close>

definition getPrecipationData :: "world \<Rightarrow> action list" where
  "getPrecipationData w =
     [LoadTime (startOf_day (subtract_1_days (clock w AtLoadYesterday))),
      LoadTime (startOf_day (clock w AtLoadToday))] @
     (case Promise_all (yesterday_response w) (today_response w) (today_rejects_first w) of
        Inr (Some yesterday, Some today) \<Rightarrow> resolved w yesterday today
      | Inr (Some yesterday, None) \<Rightarrow> rejected TypeError
      | Inr (None, today) \<Rightarrow> rejected TypeError
      | Inl err \<Rightarrow> rejected err)"

subsection \<open>The entry point: \<^verbatim>\<open>module.exports\<close>\<close>

text \<open>\<^verbatim>\<open>data && (data.lastMessageSent == moment().tz(TZ).format("YYYY-MM-DD"))\<close>\<close>

definition already_sent :: "world \<Rightarrow> bool" where
  "already_sent w =
     (case storage_data w of
        None \<Rightarrow> False
      | Some data \<Rightarrow> lastMessageSent data = Some (format_YYYY_MM_DD (clock w AtGate)))"

definition module_exports :: "world \<Rightarrow> action list" where
  "module_exports w =
     StorageGet #
     (case storage_get_error w of
        Some e \<Rightarrow> [Callback (Some e) None]
      | None \<Rightarrow>
          if already_sent w
          then [ConsoleLog ''Message was already sent today, exiting.'',
                Callback None (Some (Plain ''Message was already sent today!''))]
          else getPrecipationData w)"

subsection \<open>The store, and reading a trace\<close>

text \<open>
  The key-value store replaces its content on a \<^verbatim>\<open>set\<close> that succeeds and keeps it on
  one that fails; no other action touches it.
\<close>

fun storage_after :: "error option \<Rightarrow> stored option \<Rightarrow> action list \<Rightarrow> stored option" where
  "storage_after set_err st [] = st"
| "storage_after set_err st (StorageSet d # as) =
     storage_after set_err (case set_err of None \<Rightarrow> Some d | Some e \<Rightarrow> st) as"
| "storage_after set_err st (a # as) = storage_after set_err st as"

definition persisted_after :: "world \<Rightarrow> stored option" where
  "persisted_after w = storage_after (storage_set_error w) (storage_data w) (module_exports w)"

fun is_send :: "action \<Rightarrow> bool" where
  "is_send (PushoverSend m) = True"
| "is_send a = False"

fun is_set :: "action \<Rightarrow> bool" where
  "is_set (StorageSet d) = True"
| "is_set a = False"

fun is_load :: "action \<Rightarrow> bool" where
  "is_load (LoadTime t) = True"
| "is_load a = False"

fun is_callback :: "action \<Rightarrow> bool" where
  "is_callback (Callback e m) = True"
| "is_callback a = False"

text \<open>\<^verbatim>\<open>cb(null, message)\<close>: the success callback.\<close>

fun is_success :: "action \<Rightarrow> bool" where
  "is_success (Callback None (Some m)) = True"
| "is_success a = False"

subsection \<open>Concrete inputs\<close>

text \<open>A Monday morning in January 2018, and a sample on the hour of a day of that month.\<close>

definition at_time :: "nat \<Rightarrow> nat \<Rightarrow> nat \<Rightarrow> nat \<Rightarrow> moment" where
  "at_time h m s ms =
     \<lparr>year = 2018, month = 1, date = 15, hour = h, minute = m, second = s, millisecond = ms\<rparr>"

definition hourly_sample :: "nat \<Rightarrow> nat \<Rightarrow> real option \<Rightarrow> data_point" where
  "hourly_sample d h acc =
     \<lparr>time = \<lparr>year = 2018, month = 1, date = d, hour = h, minute = 0, second = 0,
               millisecond = 0\<rparr>,
      precipAccumulation = acc\<rparr>"

text \<open>
  A world where every clock reading is \<open>now\<close>, the store is empty, nothing fails, the
  provider reports the given samples and the push library reports nothing. Its totals
  are sums of a few whole numbers of centimetres, which doubles add without rounding.
\<close>

definition calm_world :: "moment \<Rightarrow> data_point list \<Rightarrow> data_point list \<Rightarrow> world" where
  "calm_world now ys ts =
     \<lparr>clock = (\<lambda>site. now),
      storage_data = None,
      storage_get_error = None,
      storage_set_error = None,
      yesterday_response = Inr (Some \<lparr>hourly_data = ys\<rparr>),
      today_response = Inr (Some \<lparr>hourly_data = ts\<rparr>),
      today_rejects_first = False,
      pushover_events = [],
      number_plus = (+)\<rparr>"

text \<open>
  Seven o'clock after 10 cm of snow at 23:00 the evening before: the push library calls
  the send callback, without or with an error, and the store may refuse the write.
\<close>

definition snowy_world :: "error option \<Rightarrow> error option \<Rightarrow> world" where
  "snowy_world send_err set_err =
     (calm_world (at_time 7 0 0 0) [hourly_sample 14 23 (Some 10)] [])
       \<lparr>storage_set_error := set_err, pushover_events := [SendDone send_err ''{status:1}'']\<rparr>"



section \<open>Properties\<close>

subsection \<open>Auxiliary facts\<close>

lemmas moment_defs = isAfter_def isBefore_def isBetween_def wallClock_def hours_def minutes_def
  seconds_def milliseconds_def startOf_day_def time0500_def time0600_def time0630_def

lemmas threshold_defs = MINIMUM_SNOW_0500_def MINIMUM_SNOW_0600_def MINIMUM_SNOW_0630_def

lemmas fixture_defs = at_time_def hourly_sample_def calm_world_def

text \<open>The three time conditions, read off the fields of the clock reading.\<close>

lemma isAfter_time0500:
  "isAfter now (time0500 now) \<longleftrightarrow>
     5 < hour now \<or> hour now = 5 \<and> (0 < minute now \<or> 0 < second now \<or> 0 < millisecond now)"
  by (auto simp: moment_defs)

lemma isAfter_time0600:
  "isAfter now (time0600 now) \<longleftrightarrow>
     6 < hour now \<or> hour now = 6 \<and> (0 < minute now \<or> 0 < second now \<or> 0 < millisecond now)"
  by (auto simp: moment_defs)

lemma isAfter_time0630:
  "isAfter now (time0630 now) \<longleftrightarrow>
     6 < hour now \<or> hour now = 6 \<and>
       (30 < minute now \<or> minute now = 30 \<and> (0 < second now \<or> 0 < millisecond now))"
  by (auto simp: moment_defs)

lemmas isAfter_rules = isAfter_time0500 isAfter_time0600 isAfter_time0630


lemma storage_after_no_set:
  "\<not> list_ex is_set as \<Longrightarrow> storage_after e st as = st"
  by (induction e st as rule: storage_after.induct) simp_all

text \<open>What the handlers of the push library's reports can and cannot do.\<close>

lemma handlers_no_success: "filter is_success (pushover_handlers w evs) = []"
  by (induction w evs rule: pushover_handlers.induct)
    (simp_all add: onerror_def send_callback_def storage_set_callback_def split: option.splits)

lemma handlers_no_sent_message:
  "Callback None (Some m) \<notin> set (pushover_handlers w evs)"
  by (induction w evs rule: pushover_handlers.induct)
    (auto simp: onerror_def send_callback_def storage_set_callback_def split: option.splits)

lemma handlers_send_error:
  "SendDone (Some e) r \<in> set evs \<Longrightarrow> Callback (Some e) None \<in> set (pushover_handlers w evs)"
  by (induction w evs rule: pushover_handlers.induct) (auto simp: send_callback_def)

lemma handlers_set_error:
  "SendDone err r \<in> set evs \<Longrightarrow> storage_set_error w = Some e \<Longrightarrow>
   Callback (Some e) None \<in> set (pushover_handlers w evs)"
  by (induction w evs rule: pushover_handlers.induct)
    (auto simp: send_callback_def storage_set_callback_def)

lemma callback_counts:
  "Callback e m \<in> set as \<Longrightarrow> 1 \<le> length (filter is_callback as)"
  by (induction as) auto

lemma two_callbacks:
  "Callback e m \<in> set as \<Longrightarrow>
   2 \<le> length (filter is_callback (pre @ Callback e' m' # as))"
  by (drule callback_counts) simp

text \<open>The gate, and the two shapes of a run whose provider calls both succeed.\<close>

lemma already_sent_iff:
  "already_sent w \<longleftrightarrow>
     storage_data w = Some \<lparr>lastMessageSent = Some (format_YYYY_MM_DD (clock w AtGate))\<rparr>"
  by (cases "storage_data w") (auto simp: already_sent_def)

lemma getPrecipationData_resolved:
  "yesterday_response w = Inr (Some y) \<Longrightarrow> today_response w = Inr (Some t) \<Longrightarrow>
   getPrecipationData w =
     [LoadTime (startOf_day (subtract_1_days (clock w AtLoadYesterday))),
      LoadTime (startOf_day (clock w AtLoadToday))] @ resolved w y t"
  by (simp add: getPrecipationData_def Promise_all_def)

lemma resolved_no_match:
  "\<not> rule_condition (clock w AtNotifier) (run_total w y t) \<Longrightarrow>
   resolved w y t =
     [Callback None (Some (WithNumber ''Snow level is '' (run_total w y t) ''cm, no need to shovel!''))]"
  by (simp add: resolved_def pushNotificationIfNeeded_def DEBUG_LEVEL_def Let_def)

lemma resolved_match:
  "rule_condition (clock w AtNotifier) (run_total w y t) \<Longrightarrow>
   resolved w y t =
     [PushoverSend (msg (run_total w y t)),
      Callback None (Some (WithNumber ''Snow level is '' (run_total w y t) ''cm, no need to shovel!''))] @
     pushover_handlers w (pushover_events w)"
  by (simp add: resolved_def pushNotificationIfNeeded_def DEBUG_LEVEL_def Let_def)

lemma resolved_success:
  "filter is_success (resolved w y t) =
     [Callback None (Some (WithNumber ''Snow level is '' (run_total w y t) ''cm, no need to shovel!''))]"
  by (cases "rule_condition (clock w AtNotifier) (run_total w y t)")
    (simp_all add: resolved_match resolved_no_match handlers_no_success)

lemma resolved_never_sent_message:
  "Callback None (Some (WithNumber ''Snow level is '' x ''cm, message has been sent!''))
     \<notin> set (resolved w y t)"
  by (cases "rule_condition (clock w AtNotifier) (run_total w y t)")
    (simp_all add: resolved_match resolved_no_match handlers_no_sent_message)

lemma getPrecipationData_success:
  assumes "a \<in> set (getPrecipationData w)" and "is_success a"
  shows "\<exists>x. a = Callback None (Some (WithNumber ''Snow level is '' x ''cm, no need to shovel!''))"
proof (cases "Promise_all (yesterday_response w) (today_response w) (today_rejects_first w)")
  case (Inl err)
  with assms show ?thesis
    by (auto simp: getPrecipationData_def rejected_def)
next
  case (Inr both)
  show ?thesis
  proof (cases both)
    case (Pair yo to)
    show ?thesis
    proof (cases "\<exists>y t. yo = Some y \<and> to = Some t")
      case True
      then obtain y t where yt: "yo = Some y" "to = Some t"
        by blast
      with assms Inr Pair have "a \<in> set (filter is_success (resolved w y t))"
        by (auto simp: getPrecipationData_def)
      then show ?thesis
        by (simp add: resolved_success)
    next
      case False
      with assms Inr Pair show ?thesis
        by (cases yo; cases to) (auto simp: getPrecipationData_def rejected_def)
    qed
  qed
qed

text \<open>The runs of the concrete worlds.\<close>

lemmas run_defs = module_exports_def already_sent_def getPrecipationData_def Promise_all_def
  resolved_def run_total_def snowTotal_def snowArray_def yesterdayEvening_def todayMorning_def
  or_0_def subtract_1_days_def pushNotificationIfNeeded_def rule_condition_def
  send_callback_def storage_set_callback_def onerror_def DEBUG_LEVEL_def
  format_YYYY_MM_DD_def zeroFill_def decimal.simps digit_char_def persisted_after_def
  snowy_world_def

lemma snowy_world_run:
  "module_exports (snowy_world send_err set_err) =
     [StorageGet,
      LoadTime \<lparr>year = 2018, month = 1, date = 14, hour = 0, minute = 0, second = 0, millisecond = 0\<rparr>,
      LoadTime \<lparr>year = 2018, month = 1, date = 15, hour = 0, minute = 0, second = 0, millisecond = 0\<rparr>,
      PushoverSend (msg 10),
      Callback None (Some (WithNumber ''Snow level is '' 10 ''cm, no need to shovel!''))] @
     (case send_err of
        Some e \<Rightarrow> [ConsoleLog ''Cannot send pushover notification: '', Callback (Some e) None]
      | None \<Rightarrow> []) @
     [ConsoleLog ''Sent pushover notification: '',
      StorageSet \<lparr>lastMessageSent = Some ''2018-01-15''\<rparr>] @
     (case set_err of Some e \<Rightarrow> [Callback (Some e) None] | None \<Rightarrow> [])"
  by (simp add: run_defs threshold_defs moment_defs fixture_defs)

lemma snowy_world_total:
  "run_total (snowy_world send_err set_err)
     \<lparr>hourly_data = [hourly_sample 14 23 (Some 10)]\<rparr> \<lparr>hourly_data = []\<rparr> = 10"
  by (simp add: run_total_def snowTotal_def snowArray_def yesterdayEvening_def todayMorning_def
      or_0_def subtract_1_days_def moment_defs fixture_defs snowy_world_def)

subsection \<open>The notifier's rules\<close>

text \<open>
  Claim C1, as stated, at its first half: at exactly 05:00 (05:00:00.000) with a total of
  41 cm a notification is sent. It is not: \<^verbatim>\<open>now.isAfter(time0500)\<close> is strict, so at
  the instant 05:00:00.000 no rule's time condition holds and nothing is sent.
\<close>

theorem exactly_0500_no_send_counterexample:
  "\<not> rule_condition (at_time 5 0 0 0) 41 \<and>
   performed (pushNotificationIfNeeded (calm_world (at_time 5 0 0 0) [] []) 41) = [] \<and>
   \<not> list_ex is_send (performed (pushNotificationIfNeeded (calm_world (at_time 5 0 0 0) [] []) 41))"
  by (simp add: pushNotificationIfNeeded_def rule_condition_def isAfter_rules fixture_defs)

text \<open>
  Claim C1, amended: during the minute 05:00 a total of 41 cm sends a notification at
  every instant after 05:00:00.000 and at no other; a total of 40 cm sends none during
  that minute (the comparison with the threshold is strict).
\<close>

theorem after_0500_threshold_40:
  "hour (clock w AtNotifier) = 5 \<and> minute (clock w AtNotifier) = 0 \<longrightarrow>
     performed (pushNotificationIfNeeded w 41) =
       (if 0 < second (clock w AtNotifier) \<or> 0 < millisecond (clock w AtNotifier)
        then [PushoverSend (msg 41)] else []) \<and>
     performed (pushNotificationIfNeeded w 40) = []"
  by (auto simp: pushNotificationIfNeeded_def rule_condition_def threshold_defs isAfter_rules)

theorem after_0500_threshold_40_witness:
  "hour (clock (calm_world (at_time 5 0 0 1) [] []) AtNotifier) = 5 \<and>
   minute (clock (calm_world (at_time 5 0 0 1) [] []) AtNotifier) = 0 \<and>
   performed (pushNotificationIfNeeded (calm_world (at_time 5 0 0 1) [] []) 41) =
     [PushoverSend (msg 41)] \<and>
   performed (pushNotificationIfNeeded (calm_world (at_time 5 0 0 1) [] []) 40) = []"
  using after_0500_threshold_40 [of "calm_world (at_time 5 0 0 1) [] []"]
  by (simp add: fixture_defs)

text \<open>
  Claim C5: for every snow total of at most 5 cm and every clock reading, no rule
  matches and the notifier does nothing, now or later.
\<close>

theorem no_notification_up_to_5cm:
  "s \<le> 5 \<Longrightarrow>
     \<not> rule_condition (clock w AtNotifier) s \<and>
     performed (pushNotificationIfNeeded w s) = [] \<and>
     deferred (pushNotificationIfNeeded w s) = []"
  by (auto simp: pushNotificationIfNeeded_def rule_condition_def threshold_defs)

theorem no_notification_up_to_5cm_witness:
  "(5::real) \<le> 5 \<and>
   performed (pushNotificationIfNeeded (calm_world (at_time 23 59 59 999) [] []) 5) = []"
  using no_notification_up_to_5cm [of 5 "calm_world (at_time 23 59 59 999) [] []"]
  by simp

text \<open>
  Claim C7: at 06:15 (any second of that minute) a total of 21 cm sends a notification,
  through the 06:00 rule with its threshold of 20 cm, the 06:30 rule being not yet in
  force and 21 cm being below the 05:00 threshold; a total of 6 cm sends none.
\<close>

theorem at_0615_threshold_20:
  "hour (clock w AtNotifier) = 6 \<and> minute (clock w AtNotifier) = 15 \<longrightarrow>
     performed (pushNotificationIfNeeded w 21) = [PushoverSend (msg 21)] \<and>
     isAfter (clock w AtNotifier) (time0600 (clock w AtNotifier)) \<and>
     MINIMUM_SNOW_0600 = 20 \<and>
     \<not> isAfter (clock w AtNotifier) (time0630 (clock w AtNotifier)) \<and>
     \<not> 21 > MINIMUM_SNOW_0500 \<and>
     performed (pushNotificationIfNeeded w 6) = []"
  by (auto simp: pushNotificationIfNeeded_def rule_condition_def threshold_defs isAfter_rules)

theorem at_0615_threshold_20_witness:
  "hour (clock (calm_world (at_time 6 15 0 0) [] []) AtNotifier) = 6 \<and>
   minute (clock (calm_world (at_time 6 15 0 0) [] []) AtNotifier) = 15 \<and>
   performed (pushNotificationIfNeeded (calm_world (at_time 6 15 0 0) [] []) 21) =
     [PushoverSend (msg 21)] \<and>
   performed (pushNotificationIfNeeded (calm_world (at_time 6 15 0 0) [] []) 6) = []"
  using at_0615_threshold_20 [of "calm_world (at_time 6 15 0 0) [] []"]
  by (simp add: fixture_defs)

text \<open>
  Claim C10: at a fixed clock reading the rule condition is monotone in the snow total;
  the time conditions are nested (after 06:30 implies after 06:00 implies after 05:00);
  so after 06:30 the condition holds exactly when the total exceeds 5 cm.
\<close>

theorem rule_condition_monotone_nested:
  "(rule_condition now s \<and> s \<le> s' \<longrightarrow> rule_condition now s') \<and>
   (isAfter now (time0630 now) \<longrightarrow> isAfter now (time0600 now)) \<and>
   (isAfter now (time0600 now) \<longrightarrow> isAfter now (time0500 now)) \<and>
   (isAfter now (time0630 now) \<longrightarrow> (rule_condition now s \<longleftrightarrow> 5 < s))"
proof (intro conjI impI)
  assume "rule_condition now s \<and> s \<le> s'"
  then show "rule_condition now s'"
    unfolding rule_condition_def by auto
next
  assume "isAfter now (time0630 now)"
  then show "isAfter now (time0600 now)"
    by (auto simp: isAfter_rules)
next
  assume "isAfter now (time0600 now)"
  then show "isAfter now (time0500 now)"
    by (auto simp: isAfter_rules)
next
  assume a: "isAfter now (time0630 now)"
  then have "isAfter now (time0600 now)" "isAfter now (time0500 now)"
    by (auto simp: isAfter_rules)
  with a show "rule_condition now s \<longleftrightarrow> 5 < s"
    by (auto simp: rule_condition_def threshold_defs)
qed

theorem rule_condition_monotone_nested_witness:
  "rule_condition (at_time 6 45 0 0) 6 \<and> (6::real) \<le> 30 \<and> rule_condition (at_time 6 45 0 0) 30 \<and>
   isAfter (at_time 6 45 0 0) (time0630 (at_time 6 45 0 0)) \<and>
   isAfter (at_time 6 45 0 0) (time0600 (at_time 6 45 0 0)) \<and>
   isAfter (at_time 6 45 0 0) (time0500 (at_time 6 45 0 0))"
  using rule_condition_monotone_nested [of "at_time 6 45 0 0" 6 30]
  by (simp add: isAfter_rules at_time_def)

text \<open>
  Claim C6: when no rule matches, the notifier does nothing, now or later; and a run
  whose total (of two responses with their hourly data) matches no rule sends no
  notification, writes nothing to the store and leaves the persisted record as it was.
\<close>

theorem no_rule_no_effect:
  "(\<not> rule_condition (clock w AtNotifier) s \<longrightarrow>
      performed (pushNotificationIfNeeded w s) = [] \<and>
      deferred (pushNotificationIfNeeded w s) = []) \<and>
   (yesterday_response w = Inr (Some y) \<and> today_response w = Inr (Some t) \<and>
    \<not> rule_condition (clock w AtNotifier) (run_total w y t) \<longrightarrow>
      \<not> list_ex is_send (module_exports w) \<and>
      \<not> list_ex is_set (module_exports w) \<and>
      persisted_after w = storage_data w)"
proof (intro conjI impI)
  assume "\<not> rule_condition (clock w AtNotifier) s"
  then show "performed (pushNotificationIfNeeded w s) = []"
    and "deferred (pushNotificationIfNeeded w s) = []"
    by (simp_all add: pushNotificationIfNeeded_def)
next
  assume a: "yesterday_response w = Inr (Some y) \<and> today_response w = Inr (Some t) \<and>
    \<not> rule_condition (clock w AtNotifier) (run_total w y t)"
  then have g: "getPrecipationData w =
      [LoadTime (startOf_day (subtract_1_days (clock w AtLoadYesterday))),
       LoadTime (startOf_day (clock w AtLoadToday)),
       Callback None (Some (WithNumber ''Snow level is '' (run_total w y t) ''cm, no need to shovel!''))]"
    by (simp add: getPrecipationData_resolved resolved_no_match)
  show "\<not> list_ex is_send (module_exports w)"
    by (simp add: module_exports_def g split: option.splits)
  show unset: "\<not> list_ex is_set (module_exports w)"
    by (simp add: module_exports_def g split: option.splits)
  from unset show "persisted_after w = storage_data w"
    by (simp add: persisted_after_def storage_after_no_set)
qed

theorem no_rule_no_effect_witness:
  "\<not> rule_condition (at_time 6 15 0 0) 6 \<and>
   performed (pushNotificationIfNeeded
     (calm_world (at_time 6 15 0 0) [hourly_sample 14 23 (Some 6)] []) 6) = [] \<and>
   run_total (calm_world (at_time 6 15 0 0) [hourly_sample 14 23 (Some 6)] [])
     \<lparr>hourly_data = [hourly_sample 14 23 (Some 6)]\<rparr> \<lparr>hourly_data = []\<rparr> = 6 \<and>
   \<not> list_ex is_send
     (module_exports (calm_world (at_time 6 15 0 0) [hourly_sample 14 23 (Some 6)] [])) \<and>
   \<not> list_ex is_set
     (module_exports (calm_world (at_time 6 15 0 0) [hourly_sample 14 23 (Some 6)] [])) \<and>
   persisted_after (calm_world (at_time 6 15 0 0) [hourly_sample 14 23 (Some 6)] []) = None"
proof -
  let ?w = "calm_world (at_time 6 15 0 0) [hourly_sample 14 23 (Some 6)] []"
  have tot: "run_total ?w \<lparr>hourly_data = [hourly_sample 14 23 (Some 6)]\<rparr> \<lparr>hourly_data = []\<rparr> = 6"
    by (simp add: run_total_def snowTotal_def snowArray_def yesterdayEvening_def todayMorning_def
        or_0_def subtract_1_days_def moment_defs fixture_defs)
  have no: "\<not> rule_condition (at_time 6 15 0 0) 6"
    by (simp add: rule_condition_def threshold_defs isAfter_rules at_time_def)
  have clk: "clock ?w AtNotifier = at_time 6 15 0 0"
    and ys: "yesterday_response ?w = Inr (Some \<lparr>hourly_data = [hourly_sample 14 23 (Some 6)]\<rparr>)"
    and ts: "today_response ?w = Inr (Some \<lparr>hourly_data = []\<rparr>)"
    and st: "storage_data ?w = None"
    by (simp_all add: calm_world_def)
  show ?thesis
    using no_rule_no_effect [of ?w 6 "\<lparr>hourly_data = [hourly_sample 14 23 (Some 6)]\<rparr>"
        "\<lparr>hourly_data = []\<rparr>"] no
    unfolding tot clk ys ts st
    by simp
qed

subsection \<open>The overnight window\<close>




text \<open>
  Off the whole second the end of the window moves with the clock: a sample stamped
  today 22:00:00.000 with 7 cm is counted when the reading at line 86 is 07:00:00.500
  and dropped when it is 07:00:00.000. Line 86 lacks the \<^verbatim>\<open>.milliseconds(0)\<close> of line
  85.
\<close>

lemma todayMorning_keeps_milliseconds:
  "snowTotal (+) (snowArray (yesterdayEvening (at_time 7 0 0 500)) (todayMorning (at_time 7 0 0 500))
      \<lparr>hourly_data = []\<rparr> \<lparr>hourly_data = [hourly_sample 15 22 (Some 7)]\<rparr>) = 7 \<and>
   snowTotal (+) (snowArray (yesterdayEvening (at_time 7 0 0 0)) (todayMorning (at_time 7 0 0 0))
      \<lparr>hourly_data = []\<rparr> \<lparr>hourly_data = [hourly_sample 15 22 (Some 7)]\<rparr>) = 0"
  by (simp add: snowTotal_def snowArray_def yesterdayEvening_def todayMorning_def or_0_def
      subtract_1_days_def moment_defs fixture_defs)

subsection \<open>The dedup gate\<close>

text \<open>
  Claim C4: when the store is read without error and holds today's date as marker, the
  run is the read, the log line and the callback with the "already sent" message, with
  no call of the weather provider; when the marker is anything else, the run goes on
  into \<^verbatim>\<open>getPrecipationData\<close>, which starts with the two provider calls; when the read
  fails, the error goes to the callback and the run ends there.
\<close>

theorem dedup_gate:
  "(storage_get_error w = None \<and>
    storage_data w = Some \<lparr>lastMessageSent = Some (format_YYYY_MM_DD (clock w AtGate))\<rparr> \<longrightarrow>
      module_exports w =
        [StorageGet, ConsoleLog ''Message was already sent today, exiting.'',
         Callback None (Some (Plain ''Message was already sent today!''))] \<and>
      \<not> list_ex is_load (module_exports w)) \<and>
   (storage_get_error w = None \<and>
    storage_data w \<noteq> Some \<lparr>lastMessageSent = Some (format_YYYY_MM_DD (clock w AtGate))\<rparr> \<longrightarrow>
      module_exports w = StorageGet # getPrecipationData w \<and>
      take 2 (getPrecipationData w) =
        [LoadTime (startOf_day (subtract_1_days (clock w AtLoadYesterday))),
         LoadTime (startOf_day (clock w AtLoadToday))]) \<and>
   (storage_get_error w = Some e \<longrightarrow> module_exports w = [StorageGet, Callback (Some e) None])"
  by (simp add: module_exports_def already_sent_iff getPrecipationData_def)

theorem dedup_gate_witness:
  "module_exports ((calm_world (at_time 7 0 0 0) [] [])
      \<lparr>storage_data := Some \<lparr>lastMessageSent = Some ''2018-01-15''\<rparr>\<rparr>) =
     [StorageGet, ConsoleLog ''Message was already sent today, exiting.'',
      Callback None (Some (Plain ''Message was already sent today!''))] \<and>
   take 3 (module_exports ((calm_world (at_time 7 0 0 0) [] [])
      \<lparr>storage_data := Some \<lparr>lastMessageSent = Some ''2018-01-14''\<rparr>\<rparr>)) =
     [StorageGet,
      LoadTime \<lparr>year = 2018, month = 1, date = 14, hour = 0, minute = 0, second = 0,
                millisecond = 0\<rparr>,
      LoadTime \<lparr>year = 2018, month = 1, date = 15, hour = 0, minute = 0, second = 0,
                millisecond = 0\<rparr>] \<and>
   module_exports ((calm_world (at_time 7 0 0 0) [] [])
      \<lparr>storage_get_error := Some (Error ''read'')\<rparr>) =
     [StorageGet, Callback (Some (Error ''read'')) None]"
  using
    dedup_gate [of "(calm_world (at_time 7 0 0 0) [] [])
      \<lparr>storage_data := Some \<lparr>lastMessageSent = Some ''2018-01-15''\<rparr>\<rparr>"]
    dedup_gate [of "(calm_world (at_time 7 0 0 0) [] [])
      \<lparr>storage_data := Some \<lparr>lastMessageSent = Some ''2018-01-14''\<rparr>\<rparr>"]
    dedup_gate [of "(calm_world (at_time 7 0 0 0) [] [])
      \<lparr>storage_get_error := Some (Error ''read'')\<rparr>" "Error ''read''"]
  by (simp add: fixture_defs format_YYYY_MM_DD_def zeroFill_def decimal.simps digit_char_def
      startOf_day_def subtract_1_days_def)

subsection \<open>The send callback and the invocation callback\<close>

text \<open>
  Claim C2 on a run: 10 cm at 07:00, and the push library calls the send callback with
  an error. The error reaches the invocation callback, and the run goes on to write
  today's date into the store, which was empty before and holds the marker after: the
  branch for \<^verbatim>\<open>err\<close> at lines 50-53 does not return.
\<close>

theorem send_error_marker_written:
  "module_exports (snowy_world (Some (Error ''network'')) None) =
     [StorageGet,
      LoadTime \<lparr>year = 2018, month = 1, date = 14, hour = 0, minute = 0, second = 0,
                millisecond = 0\<rparr>,
      LoadTime \<lparr>year = 2018, month = 1, date = 15, hour = 0, minute = 0, second = 0,
                millisecond = 0\<rparr>,
      PushoverSend (msg 10),
      Callback None (Some (WithNumber ''Snow level is '' 10 ''cm, no need to shovel!'')),
      ConsoleLog ''Cannot send pushover notification: '',
      Callback (Some (Error ''network'')) None,
      ConsoleLog ''Sent pushover notification: '',
      StorageSet \<lparr>lastMessageSent = Some ''2018-01-15''\<rparr>] \<and>
   storage_data (snowy_world (Some (Error ''network'')) None) = None \<and>
   persisted_after (snowy_world (Some (Error ''network'')) None) =
     Some \<lparr>lastMessageSent = Some ''2018-01-15''\<rparr>"
  by (simp add: snowy_world_run persisted_after_def) (simp add: snowy_world_def calm_world_def)

text \<open>
  Claim C8: \<^verbatim>\<open>pushNotificationIfNeeded\<close> returns false on every call; so a run that
  passes the gate with both provider calls successful (two responses with their hourly
  data) invokes the success callback exactly once, with the "no need to shovel" message,
  whether or not a rule matched; no run at all invokes it with the "message has been
  sent!" message; and whatever the provider answers, every success callback of a run
  that passes the gate carries the "no need to shovel" message.
\<close>

theorem always_no_need_to_shovel:
  "\<not> returned (pushNotificationIfNeeded w s) \<and>
   (storage_get_error w = None \<and> \<not> already_sent w \<and>
    yesterday_response w = Inr (Some y) \<and> today_response w = Inr (Some t) \<longrightarrow>
      filter is_success (module_exports w) =
        [Callback None
           (Some (WithNumber ''Snow level is '' (run_total w y t) ''cm, no need to shovel!''))]) \<and>
   Callback None (Some (WithNumber ''Snow level is '' x ''cm, message has been sent!''))
     \<notin> set (module_exports w) \<and>
   (storage_get_error w = None \<and> \<not> already_sent w \<and>
    a \<in> set (module_exports w) \<and> is_success a \<longrightarrow>
      (\<exists>v. a = Callback None
         (Some (WithNumber ''Snow level is '' v ''cm, no need to shovel!''))))"
proof (intro conjI impI)
  show "\<not> returned (pushNotificationIfNeeded w s)"
    by (simp add: pushNotificationIfNeeded_def)
next
  assume "storage_get_error w = None \<and> \<not> already_sent w \<and>
    a \<in> set (module_exports w) \<and> is_success a"
  then have "a \<in> set (getPrecipationData w)" and "is_success a"
    by (auto simp: module_exports_def)
  then show "\<exists>v. a = Callback None
      (Some (WithNumber ''Snow level is '' v ''cm, no need to shovel!''))"
    by (rule getPrecipationData_success)
next
  assume "storage_get_error w = None \<and> \<not> already_sent w \<and>
    yesterday_response w = Inr (Some y) \<and> today_response w = Inr (Some t)"
  then show "filter is_success (module_exports w) =
      [Callback None
         (Some (WithNumber ''Snow level is '' (run_total w y t) ''cm, no need to shovel!''))]"
    by (simp add: module_exports_def getPrecipationData_resolved resolved_success)
next
  show "Callback None (Some (WithNumber ''Snow level is '' x ''cm, message has been sent!''))
      \<notin> set (module_exports w)"
    by (auto simp: module_exports_def getPrecipationData_def rejected_def
        resolved_never_sent_message split: option.splits sum.splits prod.splits)
qed

theorem always_no_need_to_shovel_witness:
  "storage_get_error (snowy_world None None) = None \<and>
   \<not> already_sent (snowy_world None None) \<and>
   list_ex is_send (module_exports (snowy_world None None)) \<and>
   filter is_success (module_exports (snowy_world None None)) =
     [Callback None (Some (WithNumber ''Snow level is '' 10 ''cm, no need to shovel!''))]"
proof -
  let ?w = "snowy_world None None"
  let ?y = "\<lparr>hourly_data = [hourly_sample 14 23 (Some 10)]\<rparr>"
  let ?t = "\<lparr>hourly_data = []\<rparr>"
  have h: "storage_get_error ?w = None \<and> \<not> already_sent ?w \<and>
      yesterday_response ?w = Inr (Some ?y) \<and> today_response ?w = Inr (Some ?t)"
    by (simp add: snowy_world_def calm_world_def already_sent_def)
  have s: "list_ex is_send (module_exports ?w)"
    by (simp add: snowy_world_run)
  from always_no_need_to_shovel [of ?w 10 ?y ?t 10] h snowy_world_total [of None None] s
  show ?thesis
    by simp
qed

text \<open>
  Claim C9: in a run that passes the gate, with both provider calls successful (two
  responses with their hourly data) and a rule matching, the success callback is invoked right after the send is started and
  before any handler of the push library's reports runs; if the send callback is then
  called with an error, or is called at all while the write of the marker fails, the
  invocation callback is invoked again with that error, so at least twice in the run.
\<close>

theorem callback_invoked_again:
  "storage_get_error w = None \<and> \<not> already_sent w \<and>
   yesterday_response w = Inr (Some y) \<and> today_response w = Inr (Some t) \<and>
   rule_condition (clock w AtNotifier) (run_total w y t) \<longrightarrow>
     module_exports w =
       [StorageGet,
        LoadTime (startOf_day (subtract_1_days (clock w AtLoadYesterday))),
        LoadTime (startOf_day (clock w AtLoadToday)),
        PushoverSend (msg (run_total w y t)),
        Callback None
          (Some (WithNumber ''Snow level is '' (run_total w y t) ''cm, no need to shovel!''))] @
       pushover_handlers w (pushover_events w) \<and>
     (SendDone (Some e) r \<in> set (pushover_events w) \<longrightarrow>
        Callback (Some e) None \<in> set (pushover_handlers w (pushover_events w)) \<and>
        2 \<le> length (filter is_callback (module_exports w))) \<and>
     (SendDone err r \<in> set (pushover_events w) \<and> storage_set_error w = Some e \<longrightarrow>
        Callback (Some e) None \<in> set (pushover_handlers w (pushover_events w)) \<and>
        2 \<le> length (filter is_callback (module_exports w)))"
proof (intro impI)
  assume a: "storage_get_error w = None \<and> \<not> already_sent w \<and>
    yesterday_response w = Inr (Some y) \<and> today_response w = Inr (Some t) \<and>
    rule_condition (clock w AtNotifier) (run_total w y t)"
  let ?pre = "[StorageGet,
        LoadTime (startOf_day (subtract_1_days (clock w AtLoadYesterday))),
        LoadTime (startOf_day (clock w AtLoadToday)),
        PushoverSend (msg (run_total w y t))]"
  let ?ok = "Callback None
          (Some (WithNumber ''Snow level is '' (run_total w y t) ''cm, no need to shovel!''))"
  let ?hs = "pushover_handlers w (pushover_events w)"
  from a have run: "module_exports w = ?pre @ ?ok # ?hs"
    by (simp add: module_exports_def getPrecipationData_resolved resolved_match)
  have send: "Callback (Some e) None \<in> set ?hs \<and> 2 \<le> length (filter is_callback (module_exports w))"
    if "SendDone (Some e) r \<in> set (pushover_events w)"
  proof -
    from that have "Callback (Some e) None \<in> set ?hs"
      by (rule handlers_send_error)
    then show ?thesis
      unfolding run using two_callbacks [of "Some e" None ?hs ?pre None] by blast
  qed
  have store: "Callback (Some e) None \<in> set ?hs \<and> 2 \<le> length (filter is_callback (module_exports w))"
    if "SendDone err r \<in> set (pushover_events w) \<and> storage_set_error w = Some e"
  proof -
    from that have "Callback (Some e) None \<in> set ?hs"
      using handlers_set_error [of err r "pushover_events w" w e] by blast
    then show ?thesis
      unfolding run using two_callbacks [of "Some e" None ?hs ?pre None] by blast
  qed
  from run have "module_exports w = (?pre @ [?ok]) @ ?hs"
    by simp
  with send store show "module_exports w =
       [StorageGet,
        LoadTime (startOf_day (subtract_1_days (clock w AtLoadYesterday))),
        LoadTime (startOf_day (clock w AtLoadToday)),
        PushoverSend (msg (run_total w y t)),
        Callback None
          (Some (WithNumber ''Snow level is '' (run_total w y t) ''cm, no need to shovel!''))] @
       pushover_handlers w (pushover_events w) \<and>
     (SendDone (Some e) r \<in> set (pushover_events w) \<longrightarrow>
        Callback (Some e) None \<in> set (pushover_handlers w (pushover_events w)) \<and>
        2 \<le> length (filter is_callback (module_exports w))) \<and>
     (SendDone err r \<in> set (pushover_events w) \<and> storage_set_error w = Some e \<longrightarrow>
        Callback (Some e) None \<in> set (pushover_handlers w (pushover_events w)) \<and>
        2 \<le> length (filter is_callback (module_exports w)))"
    by simp
qed

theorem callback_invoked_again_witness:
  "storage_get_error (snowy_world (Some (Error ''network'')) (Some (Error ''store''))) = None \<and>
   \<not> already_sent (snowy_world (Some (Error ''network'')) (Some (Error ''store''))) \<and>
   rule_condition (at_time 7 0 0 0) 10 \<and>
   filter is_callback
     (module_exports (snowy_world (Some (Error ''network'')) (Some (Error ''store'')))) =
     [Callback None (Some (WithNumber ''Snow level is '' 10 ''cm, no need to shovel!'')),
      Callback (Some (Error ''network'')) None,
      Callback (Some (Error ''store'')) None] \<and>
   2 \<le> length (filter is_callback
     (module_exports (snowy_world (Some (Error ''network'')) (Some (Error ''store'')))))"
proof -
  let ?w = "snowy_world (Some (Error ''network'')) (Some (Error ''store''))"
  let ?y = "\<lparr>hourly_data = [hourly_sample 14 23 (Some 10)]\<rparr>"
  let ?t = "\<lparr>hourly_data = []\<rparr>"
  have tot: "run_total ?w ?y ?t = 10"
    by (rule snowy_world_total)
  have rc: "rule_condition (at_time 7 0 0 0) 10"
    by (simp add: rule_condition_def threshold_defs isAfter_rules at_time_def)
  have clk: "clock ?w AtNotifier = at_time 7 0 0 0"
    by (simp add: snowy_world_def calm_world_def)
  have h: "storage_get_error ?w = None \<and> \<not> already_sent ?w \<and>
      yesterday_response ?w = Inr (Some ?y) \<and> today_response ?w = Inr (Some ?t) \<and>
      rule_condition (clock ?w AtNotifier) (run_total ?w ?y ?t)"
    unfolding tot clk using rc
    by (simp add: snowy_world_def calm_world_def already_sent_def)
  have ev: "SendDone (Some (Error ''network'')) ''{status:1}'' \<in> set (pushover_events ?w)"
    by (simp add: snowy_world_def calm_world_def)
  have cbs: "filter is_callback (module_exports ?w) =
     [Callback None (Some (WithNumber ''Snow level is '' 10 ''cm, no need to shovel!'')),
      Callback (Some (Error ''network'')) None,
      Callback (Some (Error ''store'')) None]"
    by (simp add: snowy_world_run)
  from callback_invoked_again [of ?w ?y ?t "Error ''network''" "''{status:1}''"] h ev
  have "2 \<le> length (filter is_callback (module_exports ?w))"
    by blast
  with h rc cbs show ?thesis
    by simp
qed

end
